theory Spec2Isabelle
  imports Complex_Main "HOL-Library.Product_Order"
begin

section \<open>Fixed-step integrators of \<open>proj_4_module.py\<close>\<close>

text \<open>
  The module has two functions, \<open>dynamics_solve\<close> and \<open>hamiltonian_solve\<close>. Both build
  the time grid \<open>T\<close>, allocate zero-filled NumPy buffers of \<open>N + 1\<close> entries, store the
  initial condition at index 0 and then run one \<open>for n in range(N)\<close> loop chosen by the
  string \<open>method\<close>.

  Conventions of the embedding:
  \<^item> Python floats are read as the real numbers they stand for (\<open>.5\<close> is \<open>1/2\<close>).
  \<^item> One trajectory entry (\<open>S[n]\<close>, \<open>Q[n]\<close>, \<open>P[n]\<close>) is a value of a type \<open>'a\<close>: the
    type \<open>real\<close> when the dimension is 1, a length-\<open>D\<close> array otherwise. NumPy's
    elementwise \<open>+\<close>, \<open>-\<close> and the product of a float with an entry are the operations
    \<open>+\<close>, \<open>-\<close> and \<open>*\<^sub>R\<close> of a real vector space. \<open>hamiltonian_solve\<close> also adds the
    float \<open>h\<close> to an entry (\<open>Q[n] + h\<close>), which NumPy broadcasts over the components:
    that is \<open>Q[n] + of_real h\<close>, where \<open>of_real h\<close> is \<open>h\<close> times the all-ones entry, so
    the entries of \<open>hamiltonian_solve\<close> live in a real algebra with unit.
  \<^item> A buffer is a list, \<open>S[i] = v\<close> is \<open>S[i := v]\<close>; every index the loops use is
    within the buffer (\<open>n + 1 \<le> N\<close>).
  \<^item> The step count \<open>N\<close> is a natural number; the dimension is a Python int. The
    dimension only selects the shape of the buffers; the initial condition and the values
    of the callables are taken to have that shape, so that no assignment into a buffer
    fails on a shape.
  \<^item> The callables \<open>f\<close>, \<open>d_qH\<close>, \<open>d_pH\<close> are pure total functions of their arguments.
\<close>

subsection \<open>Errors\<close>

text \<open>
  The buffers are bound only under \<open>if D == 1\<close> and \<open>if D > 1\<close>. For any other
  dimension the assignment \<open>S[0] = s_0\<close> (\<open>P[0] = p_0\<close>) reads an unbound local.
\<close>

datatype error = UnboundLocalError

subsection \<open>\<open>dynamics_solve\<close>\<close>

text \<open>The list comprehension \<open>[t_0 + n * h for n in range(N + 1)]\<close>.\<close>

definition time_grid :: "real \<Rightarrow> real \<Rightarrow> nat \<Rightarrow> real list" where
  "time_grid t_0 h N = map (\<lambda>n. t_0 + real n * h) [0..<N + 1]"

text \<open>
  \<open>np.zeros(N + 1)\<close> under \<open>D == 1\<close>, \<open>np.zeros((N + 1, D))\<close> under \<open>D > 1\<close>; the two
  tests are separate \<open>if\<close>s, and the buffer stays unbound (\<open>None\<close>) when neither holds.
\<close>

definition zeros_buffer :: "int \<Rightarrow> nat \<Rightarrow> ('a::zero) list option" where
  "zeros_buffer D N =
     (let S = None;
          S = (if D = 1 then Some (replicate (N + 1) 0) else S);
          S = (if D > 1 then Some (replicate (N + 1) 0) else S)
      in S)"

text \<open>Body of the loop under \<open>method == 'Euler'\<close> (line 40).\<close>

definition euler_body ::
  "(real \<Rightarrow> 'a \<Rightarrow> 'a) \<Rightarrow> real \<Rightarrow> real list \<Rightarrow> nat \<Rightarrow> ('a::real_vector) list \<Rightarrow> 'a list" where
  "euler_body f h T n S = S[n + 1 := S ! n + h *\<^sub>R f (T ! n) (S ! n)]"

text \<open>Body of the loop under \<open>method == 'RK2'\<close> (lines 44-46).\<close>

definition rk2_body ::
  "(real \<Rightarrow> 'a \<Rightarrow> 'a) \<Rightarrow> real \<Rightarrow> real list \<Rightarrow> nat \<Rightarrow> ('a::real_vector) list \<Rightarrow> 'a list" where
  "rk2_body f h T n S =
     (let k1 = h *\<^sub>R f (T ! n) (S ! n);
          k2 = h *\<^sub>R f (T ! n + (1/2) * h) (S ! n + (1/2) *\<^sub>R k1)
      in S[n + 1 := S ! n + k2])"

text \<open>
  Body of the loop under \<open>method == 'RK4'\<close> (lines 50-54). The time argument of the
  fourth stage is \<open>T[n]\<close>, as line 53 has it.
\<close>

definition rk4_body ::
  "(real \<Rightarrow> 'a \<Rightarrow> 'a) \<Rightarrow> real \<Rightarrow> real list \<Rightarrow> nat \<Rightarrow> ('a::real_vector) list \<Rightarrow> 'a list" where
  "rk4_body f h T n S =
     (let k1 = h *\<^sub>R f (T ! n) (S ! n);
          k2 = h *\<^sub>R f (T ! n + (1/2) * h) (S ! n + (1/2) *\<^sub>R k1);
          k3 = h *\<^sub>R f (T ! n + (1/2) * h) (S ! n + (1/2) *\<^sub>R k2);
          k4 = h *\<^sub>R f (T ! n) (S ! n + k3)
      in S[n + 1 := S ! n + (1/6) *\<^sub>R (k1 + 2 *\<^sub>R k2 + 2 *\<^sub>R k3 + k4)])"

text \<open>
  The function itself. The three \<open>if method == ...\<close> are separate statements, run one
  after the other on the same buffer.
\<close>

definition dynamics_solve ::
  "(real \<Rightarrow> 'a \<Rightarrow> 'a) \<Rightarrow> int \<Rightarrow> real \<Rightarrow> ('a::real_vector) \<Rightarrow> real \<Rightarrow> nat \<Rightarrow> string
     \<Rightarrow> error + (real list \<times> 'a list)" where
  "dynamics_solve f D t_0 s_0 h N method =
     (let T = time_grid t_0 h N
      in case zeros_buffer D N of
           None \<Rightarrow> Inl UnboundLocalError
         | Some S \<Rightarrow>
             (let S = S[0 := s_0];
                  S = (if method = ''Euler'' then fold (euler_body f h T) [0..<N] S else S);
                  S = (if method = ''RK2'' then fold (rk2_body f h T) [0..<N] S else S);
                  S = (if method = ''RK4'' then fold (rk4_body f h T) [0..<N] S else S)
              in Inr (T, S)))"

subsection \<open>\<open>hamiltonian_solve\<close>\<close>

text \<open>
  \<open>d_qH\<close> and \<open>d_pH\<close> are called with two positional arguments \<open>(q, p)\<close> by Euler, RK2
  and RK4 and with three, \<open>(q, p, t)\<close>, by SE and SV. A callable sees which of the two
  it got, so its argument is the tuple of the call.
\<close>

datatype 'a call = Args2 'a 'a | Args3 'a 'a real

text \<open>Body of the loop under \<open>method == 'Euler'\<close> (lines 101-102).\<close>

definition h_euler_body ::
  "('a call \<Rightarrow> 'a) \<Rightarrow> ('a call \<Rightarrow> 'a) \<Rightarrow> real \<Rightarrow> nat \<Rightarrow> ('a::real_algebra_1) list \<times> 'a list
     \<Rightarrow> 'a list \<times> 'a list" where
  "h_euler_body d_qH d_pH h n QP =
     (let (Q, P) = QP;
          Q = Q[n + 1 := Q ! n + h *\<^sub>R d_pH (Args2 (Q ! n) (P ! n))];
          P = P[n + 1 := P ! n - h *\<^sub>R d_qH (Args2 (Q ! n) (P ! n))]
      in (Q, P))"

text \<open>Body of the loop under \<open>method == 'RK2'\<close> (lines 108-115).\<close>

definition h_rk2_body ::
  "('a call \<Rightarrow> 'a) \<Rightarrow> ('a call \<Rightarrow> 'a) \<Rightarrow> real \<Rightarrow> nat \<Rightarrow> ('a::real_algebra_1) list \<times> 'a list
     \<Rightarrow> 'a list \<times> 'a list" where
  "h_rk2_body d_qH d_pH h n QP =
     (let (Q, P) = QP;
          k1_Q = h *\<^sub>R d_pH (Args2 (Q ! n) (P ! n));
          k1_P = (- h) *\<^sub>R d_qH (Args2 (Q ! n) (P ! n));
          k2_Q = h *\<^sub>R d_pH (Args2 (Q ! n + (1/2) *\<^sub>R k1_Q) (P ! n + (1/2) *\<^sub>R k1_Q));
          k2_P = (- h) *\<^sub>R d_qH (Args2 (Q ! n + (1/2) *\<^sub>R k1_P) (P ! n + (1/2) *\<^sub>R k1_P));
          Q = Q[n + 1 := Q ! n + k2_Q];
          P = P[n + 1 := P ! n + k2_P]
      in (Q, P))"

text \<open>
  Body of the loop under \<open>method == 'RK4'\<close> (lines 121-134). In the fourth stage the
  position argument is \<open>Q[n] + h\<close>, the float \<open>h\<close> added to every component.
\<close>

definition h_rk4_body ::
  "('a call \<Rightarrow> 'a) \<Rightarrow> ('a call \<Rightarrow> 'a) \<Rightarrow> real \<Rightarrow> nat \<Rightarrow> ('a::real_algebra_1) list \<times> 'a list
     \<Rightarrow> 'a list \<times> 'a list" where
  "h_rk4_body d_qH d_pH h n QP =
     (let (Q, P) = QP;
          k1_Q = h *\<^sub>R d_pH (Args2 (Q ! n) (P ! n));
          k1_P = (- h) *\<^sub>R d_qH (Args2 (Q ! n) (P ! n));
          k2_Q = h *\<^sub>R d_pH (Args2 (Q ! n + (1/2) *\<^sub>R k1_Q) (P ! n + (1/2) *\<^sub>R k1_Q));
          k2_P = (- h) *\<^sub>R d_qH (Args2 (Q ! n + (1/2) *\<^sub>R k1_P) (P ! n + (1/2) *\<^sub>R k1_P));
          k3_Q = h *\<^sub>R d_pH (Args2 (Q ! n + (1/2) *\<^sub>R k2_Q) (P ! n + (1/2) *\<^sub>R k2_Q));
          k3_P = (- h) *\<^sub>R d_qH (Args2 (Q ! n + (1/2) *\<^sub>R k2_P) (P ! n + (1/2) *\<^sub>R k2_P));
          k4_Q = h *\<^sub>R d_pH (Args2 (Q ! n + of_real h) (P ! n + k3_Q));
          k4_P = (- h) *\<^sub>R d_qH (Args2 (Q ! n + of_real h) (P ! n + k3_P));
          Q = Q[n + 1 := Q ! n + (1/6) *\<^sub>R (k1_Q + 2 *\<^sub>R k2_Q + 2 *\<^sub>R k3_Q + k4_Q)];
          P = P[n + 1 := P ! n + (1/6) *\<^sub>R (k1_P + 2 *\<^sub>R k2_P + 2 *\<^sub>R k3_P + k4_P)]
      in (Q, P))"

text \<open>
  Body of the loop under \<open>method == 'SE'\<close> (lines 140-141): line 141 reads \<open>Q[n+1]\<close>
  from the buffer line 140 has just written.
\<close>

definition h_se_body ::
  "('a call \<Rightarrow> 'a) \<Rightarrow> ('a call \<Rightarrow> 'a) \<Rightarrow> real \<Rightarrow> real list \<Rightarrow> nat
     \<Rightarrow> ('a::real_algebra_1) list \<times> 'a list \<Rightarrow> 'a list \<times> 'a list" where
  "h_se_body d_qH d_pH h T n QP =
     (let (Q, P) = QP;
          Q = Q[n + 1 := Q ! n + h *\<^sub>R d_pH (Args3 (Q ! n) (P ! n) (T ! n))];
          P = P[n + 1 := P ! n - h *\<^sub>R d_qH (Args3 (Q ! (n + 1)) (P ! n) (T ! n))]
      in (Q, P))"

text \<open>
  Body of the loop under \<open>method == "SV"\<close> (lines 147-149); \<open>h*.5*x\<close> is
  \<open>(h*.5)*x\<close>.
\<close>

definition h_sv_body ::
  "('a call \<Rightarrow> 'a) \<Rightarrow> ('a call \<Rightarrow> 'a) \<Rightarrow> real \<Rightarrow> real list \<Rightarrow> nat
     \<Rightarrow> ('a::real_algebra_1) list \<times> 'a list \<Rightarrow> 'a list \<times> 'a list" where
  "h_sv_body d_qH d_pH h T n QP =
     (let (Q, P) = QP;
          k1 = P ! n - (h * (1/2)) *\<^sub>R d_qH (Args3 (Q ! n) (P ! n) (T ! n));
          Q = Q[n + 1 := Q ! n + h *\<^sub>R d_pH (Args3 (Q ! n) k1 (T ! n))];
          P = P[n + 1 := k1 - (h * (1/2)) *\<^sub>R d_qH (Args3 (Q ! (n + 1)) (P ! n) (T ! n))]
      in (Q, P))"

text \<open>
  The function itself; \<open>K\<close> and \<open>m\<close> are its last two keyword parameters. \<open>P\<close> is
  allocated and initialised before \<open>Q\<close>, as in lines 89-97.
\<close>

definition hamiltonian_solve ::
  "('a call \<Rightarrow> 'a) \<Rightarrow> ('a call \<Rightarrow> 'a) \<Rightarrow> int \<Rightarrow> real \<Rightarrow> ('a::real_algebra_1) \<Rightarrow> 'a \<Rightarrow> real \<Rightarrow> nat
     \<Rightarrow> string \<Rightarrow> real \<Rightarrow> real \<Rightarrow> error + (real list \<times> 'a list \<times> 'a list)" where
  "hamiltonian_solve d_qH d_pH d t_0 q_0 p_0 h N method K m =
     (let T = time_grid t_0 h N
      in case (zeros_buffer d N, zeros_buffer d N) of
           (Some P, Some Q) \<Rightarrow>
             (let P = P[0 := p_0];
                  Q = Q[0 := q_0];
                  QP = (Q, P);
                  QP = (if method = ''Euler'' then fold (h_euler_body d_qH d_pH h) [0..<N] QP else QP);
                  QP = (if method = ''RK2'' then fold (h_rk2_body d_qH d_pH h) [0..<N] QP else QP);
                  QP = (if method = ''RK4'' then fold (h_rk4_body d_qH d_pH h) [0..<N] QP else QP);
                  QP = (if method = ''SE'' then fold (h_se_body d_qH d_pH h T) [0..<N] QP else QP);
                  QP = (if method = ''SV'' then fold (h_sv_body d_qH d_pH h T) [0..<N] QP else QP);
                  (Q, P) = QP
              in Inr (T, Q, P))
         | _ \<Rightarrow> Inl UnboundLocalError)"


subsection \<open>The schemes as the specification states them\<close>

text \<open>
  The specification's RK4 step for \<open>dynamics_solve\<close>, written from its words:
  \<open>k1 = h f(T[n], S[n])\<close>, \<open>k2 = h f(T[n] + h/2, S[n] + k1/2)\<close>,
  \<open>k3 = h f(T[n] + h/2, S[n] + k2/2)\<close>, \<open>k4 = h f(T[n] + h, S[n] + k3)\<close> and
  \<open>S[n+1] = S[n] + (k1 + 2 k2 + 2 k3 + k4)/6\<close>. It is compared with the code below.
\<close>

definition rk4_stated_step :: "(real \<Rightarrow> 'a \<Rightarrow> 'a) \<Rightarrow> real \<Rightarrow> real \<Rightarrow> ('a::real_vector) \<Rightarrow> 'a" where
  "rk4_stated_step f h t s =
     (let k1 = h *\<^sub>R f t s;
          k2 = h *\<^sub>R f (t + h / 2) (s + k1 /\<^sub>R 2);
          k3 = h *\<^sub>R f (t + h / 2) (s + k2 /\<^sub>R 2);
          k4 = h *\<^sub>R f (t + h) (s + k3)
      in s + (k1 + 2 *\<^sub>R k2 + 2 *\<^sub>R k3 + k4) /\<^sub>R 6)"

text \<open>
  The coupled pair \<open>(q, p)\<close> is one state of twice the dimension; sums and differences
  of pairs are componentwise, and so is the product with a float.
\<close>

instantiation prod :: (real_vector, real_vector) real_vector
begin

definition scaleR_prod :: "real \<Rightarrow> 'a \<times> 'b \<Rightarrow> 'a \<times> 'b" where
  "scaleR_prod c s = (c *\<^sub>R fst s, c *\<^sub>R snd s)"

instance
  by standard (simp_all add: scaleR_prod_def plus_prod_def scaleR_add_right scaleR_add_left)

end

text \<open>
  The specification's reading of Euler, RK2 and RK4 in \<open>hamiltonian_solve\<close>: the scheme
  of \<open>dynamics_solve\<close> run on the pair with \<open>dq/dt = d_pH(q, p)\<close> and
  \<open>dp/dt = - d_qH(q, p)\<close>. Both components of the field are taken at the one point
  the stage passes in.
\<close>

definition coupled_field ::
  "('a call \<Rightarrow> 'a) \<Rightarrow> ('a call \<Rightarrow> 'a) \<Rightarrow> real \<Rightarrow> ('a::real_algebra_1) \<times> 'a \<Rightarrow> 'a \<times> 'a" where
  "coupled_field d_qH d_pH t s =
     (d_pH (Args2 (fst s) (snd s)), - d_qH (Args2 (fst s) (snd s)))"

definition coupled_solve ::
  "('a call \<Rightarrow> 'a) \<Rightarrow> ('a call \<Rightarrow> 'a) \<Rightarrow> int \<Rightarrow> real \<Rightarrow> ('a::real_algebra_1) \<Rightarrow> 'a \<Rightarrow> real \<Rightarrow> nat
     \<Rightarrow> string \<Rightarrow> error + (real list \<times> 'a list \<times> 'a list)" where
  "coupled_solve d_qH d_pH d t_0 q_0 p_0 h N method =
     (case dynamics_solve (coupled_field d_qH d_pH) d t_0 (q_0, p_0) h N method of
        Inl e \<Rightarrow> Inl e
      | Inr (T, S) \<Rightarrow> Inr (T, map fst S, map snd S))"

subsection \<open>Example inputs\<close>

text \<open>
  The harmonic oscillator \<open>H = p\<^sup>2/2 + q\<^sup>2/2\<close> of the specification's energy test:
  \<open>d_qH = q\<close> and \<open>d_pH = p\<close>, as callables that accept \<open>(q, p)\<close> and \<open>(q, p, t)\<close>.
\<close>

definition osc_d_qH :: "real call \<Rightarrow> real" where
  "osc_d_qH c = (case c of Args2 q p \<Rightarrow> q | Args3 q p t \<Rightarrow> q)"

definition osc_d_pH :: "real call \<Rightarrow> real" where
  "osc_d_pH c = (case c of Args2 q p \<Rightarrow> p | Args3 q p t \<Rightarrow> p)"

subsection \<open>An invariant of the paired buffers\<close>

text \<open>
  Two states of \<open>(Q, P)\<close> have the same frame when the buffers kept their lengths and
  their entries 0.
\<close>

definition same_frame :: "'a list \<times> 'a list \<Rightarrow> 'a list \<times> 'a list \<Rightarrow> bool" where
  "same_frame QP QP' \<longleftrightarrow>
     length (fst QP') = length (fst QP) \<and> length (snd QP') = length (snd QP) \<and>
     fst QP' ! 0 = fst QP ! 0 \<and> snd QP' ! 0 = snd QP ! 0"

section \<open>Properties\<close>

subsection \<open>Buffers and the time grid\<close>

lemma zeros_buffer_valid: "1 \<le> D \<Longrightarrow> zeros_buffer D N = Some (replicate (N + 1) 0)"
  by (simp add: zeros_buffer_def)

lemma zeros_buffer_invalid: "D < 1 \<Longrightarrow> zeros_buffer D N = None"
  by (simp add: zeros_buffer_def)

lemma length_time_grid: "length (time_grid t_0 h N) = N + 1"
  by (simp add: time_grid_def)

lemma nth_time_grid: "n \<le> N \<Longrightarrow> time_grid t_0 h N ! n = t_0 + real n * h"
  unfolding time_grid_def by (simp add: nth_map_upt del: upt_Suc)

text \<open>Outside the contract \<open>D \<ge> 1\<close> both functions raise before any loop runs.\<close>

lemma dynamics_solve_unbound:
  "D < 1 \<Longrightarrow> dynamics_solve f D t_0 s_0 h N method = Inl UnboundLocalError"
  by (simp add: dynamics_solve_def zeros_buffer_invalid)

lemma hamiltonian_solve_unbound:
  "d < 1 \<Longrightarrow> hamiltonian_solve d_qH d_pH d t_0 q_0 p_0 h N method K m = Inl UnboundLocalError"
  by (simp add: hamiltonian_solve_def zeros_buffer_invalid)

subsection \<open>What every loop leaves alone\<close>

text \<open>
  Each loop body writes index \<open>n + 1\<close> only, so no loop changes the length of a buffer
  or its entry 0, whatever the range it runs over.
\<close>

lemma fold_euler_keeps:
  "length (fold (euler_body f h T) ns S) = length S \<and> fold (euler_body f h T) ns S ! 0 = S ! 0"
  by (induction ns arbitrary: S) (simp_all add: euler_body_def)

lemma fold_rk2_keeps:
  "length (fold (rk2_body f h T) ns S) = length S \<and> fold (rk2_body f h T) ns S ! 0 = S ! 0"
  by (induction ns arbitrary: S) (simp_all add: rk2_body_def Let_def)

lemma fold_rk4_keeps:
  "length (fold (rk4_body f h T) ns S) = length S \<and> fold (rk4_body f h T) ns S ! 0 = S ! 0"
  by (induction ns arbitrary: S) (simp_all add: rk4_body_def Let_def)

lemma fold_same_frame:
  assumes "\<And>n QP. same_frame QP (body n QP)"
  shows "same_frame QP (fold body ns QP)"
proof (induction ns arbitrary: QP)
  case Nil
  show ?case by (simp add: same_frame_def)
next
  case (Cons n ns)
  have "same_frame QP (body n QP)" by (rule assms)
  moreover have "same_frame (body n QP) (fold body ns (body n QP))" by (rule Cons.IH)
  ultimately show ?case by (simp add: same_frame_def)
qed

lemma h_euler_body_frame: "same_frame QP (h_euler_body d_qH d_pH h n QP)"
  by (simp add: same_frame_def h_euler_body_def Let_def case_prod_beta)

lemma h_rk2_body_frame: "same_frame QP (h_rk2_body d_qH d_pH h n QP)"
  by (simp add: same_frame_def h_rk2_body_def Let_def case_prod_beta)

lemma h_rk4_body_frame: "same_frame QP (h_rk4_body d_qH d_pH h n QP)"
  by (simp add: same_frame_def h_rk4_body_def Let_def case_prod_beta)

lemma h_se_body_frame: "same_frame QP (h_se_body d_qH d_pH h T n QP)"
  by (simp add: same_frame_def h_se_body_def Let_def case_prod_beta)

lemma h_sv_body_frame: "same_frame QP (h_sv_body d_qH d_pH h T n QP)"
  by (simp add: same_frame_def h_sv_body_def Let_def case_prod_beta)


lemma dynamics_solve_frame:
  assumes "1 \<le> D"
  shows "\<exists>S. dynamics_solve f D t_0 s_0 h N method = Inr (time_grid t_0 h N, S) \<and>
     length S = N + 1 \<and> S ! 0 = s_0"
  using assms
  by (simp add: dynamics_solve_def zeros_buffer_valid Let_def
      fold_euler_keeps fold_rk2_keeps fold_rk4_keeps)

lemma hamiltonian_solve_frame:
  assumes "1 \<le> d"
  shows "\<exists>Q P. hamiltonian_solve d_qH d_pH d t_0 q_0 p_0 h N method K m =
       Inr (time_grid t_0 h N, Q, P) \<and>
     length Q = N + 1 \<and> length P = N + 1 \<and> Q ! 0 = q_0 \<and> P ! 0 = p_0"
proof -
  let ?QP = "((replicate (N + 1) (0::'a))[0 := q_0], (replicate (N + 1) (0::'a))[0 := p_0])"
  define QP where "QP =
     (if method = ''Euler'' then fold (h_euler_body d_qH d_pH h) [0..<N] ?QP
      else if method = ''RK2'' then fold (h_rk2_body d_qH d_pH h) [0..<N] ?QP
      else if method = ''RK4'' then fold (h_rk4_body d_qH d_pH h) [0..<N] ?QP
      else if method = ''SE'' then fold (h_se_body d_qH d_pH h (time_grid t_0 h N)) [0..<N] ?QP
      else if method = ''SV'' then fold (h_sv_body d_qH d_pH h (time_grid t_0 h N)) [0..<N] ?QP
      else ?QP)"
  have run: "hamiltonian_solve d_qH d_pH d t_0 q_0 p_0 h N method K m =
      Inr (time_grid t_0 h N, fst QP, snd QP)"
    using assms
    by (simp add: hamiltonian_solve_def zeros_buffer_valid Let_def QP_def case_prod_beta)
  have "same_frame ?QP QP"
    unfolding QP_def
    using fold_same_frame [of "h_euler_body d_qH d_pH h", OF h_euler_body_frame]
      fold_same_frame [of "h_rk2_body d_qH d_pH h", OF h_rk2_body_frame]
      fold_same_frame [of "h_rk4_body d_qH d_pH h", OF h_rk4_body_frame]
      fold_same_frame [of "h_se_body d_qH d_pH h (time_grid t_0 h N)", OF h_se_body_frame]
      fold_same_frame [of "h_sv_body d_qH d_pH h (time_grid t_0 h N)", OF h_sv_body_frame]
    by (simp add: same_frame_def)
  then have "length (fst QP) = N + 1" "length (snd QP) = N + 1" "fst QP ! 0 = q_0" "snd QP ! 0 = p_0"
    by (simp_all add: same_frame_def)
  with run show ?thesis by blast
qed


subsection \<open>The time grid\<close>

text \<open>
  Claim C7. For every \<open>t_0\<close>, \<open>h\<close>, \<open>N\<close> and every method string, recognised or not,
  both \<open>dynamics_solve\<close> and \<open>hamiltonian_solve\<close> return (for a dimension of at least 1,
  without which neither returns) a time grid \<open>T\<close> of length \<open>N + 1\<close> with
  \<open>T[n] = t_0 + n h\<close> for every \<open>n\<close> from 0 to \<open>N\<close>.
\<close>

theorem time_grid_returned:
  assumes "1 \<le> D" and "1 \<le> d"
  shows "(\<exists>T S. dynamics_solve f D t_0 s_0 h N method = Inr (T, S) \<and>
            length T = N + 1 \<and> (\<forall>n\<le>N. T ! n = t_0 + real n * h)) \<and>
         (\<exists>T Q P. hamiltonian_solve d_qH d_pH d t_0 q_0 p_0 h N method K m = Inr (T, Q, P) \<and>
            length T = N + 1 \<and> (\<forall>n\<le>N. T ! n = t_0 + real n * h))"
proof -
  have grid: "length (time_grid t_0 h N) = N + 1 \<and>
      (\<forall>n\<le>N. time_grid t_0 h N ! n = t_0 + real n * h)"
    using length_time_grid nth_time_grid by blast
  from dynamics_solve_frame [OF assms(1), of f t_0 s_0 h N "method"]
  obtain S where "dynamics_solve f D t_0 s_0 h N method = Inr (time_grid t_0 h N, S)"
    by blast
  moreover
  from hamiltonian_solve_frame [OF assms(2), of d_qH d_pH t_0 q_0 p_0 h N "method" K m]
  obtain Q P where
    "hamiltonian_solve d_qH d_pH d t_0 q_0 p_0 h N method K m = Inr (time_grid t_0 h N, Q, P)"
    by blast
  ultimately show ?thesis
    using grid by blast
qed

theorem time_grid_returned_witness:
  "(1::int) \<le> 1 \<and> (2::nat) \<le> 2 \<and>
   (\<exists>T S. dynamics_solve (\<lambda>t s. s) 1 0 (1::real) (1/10) 2 ''RK4'' = Inr (T, S) \<and>
      length T = 3 \<and> T ! 2 = 1/5) \<and>
   (\<exists>T Q P. hamiltonian_solve osc_d_qH osc_d_pH 1 0 0 1 (1/10) 2 ''SV'' 1 1 = Inr (T, Q, P) \<and>
      length T = 3 \<and> T ! 2 = 1/5)"
proof -
  have dims: "(1::int) \<le> 1" by simp
  from time_grid_returned [OF dims dims, of "\<lambda>t s. s" 0 "1::real" "1/10" 2 "''RK4''"
      osc_d_qH osc_d_pH 0 1 1 1]
  obtain T S where "dynamics_solve (\<lambda>t s. s) 1 0 (1::real) (1/10) 2 ''RK4'' = Inr (T, S)"
    and "length T = 2 + 1" and "\<forall>n\<le>2. T ! n = 0 + real n * (1/10)"
    by blast
  then have first: "\<exists>T S. dynamics_solve (\<lambda>t s. s) 1 0 (1::real) (1/10) 2 ''RK4'' = Inr (T, S) \<and>
      length T = 3 \<and> T ! 2 = 1/5"
    by auto
  from time_grid_returned [OF dims dims, of "\<lambda>t s. s" 0 "1::real" "1/10" 2 "''SV''"
      osc_d_qH osc_d_pH 0 1 1 1]
  obtain T Q P where "hamiltonian_solve osc_d_qH osc_d_pH 1 0 0 1 (1/10) 2 ''SV'' 1 1 = Inr (T, Q, P)"
    and "length T = 2 + 1" and "\<forall>n\<le>2. T ! n = 0 + real n * (1/10)"
    by blast
  then have "\<exists>T Q P. hamiltonian_solve osc_d_qH osc_d_pH 1 0 0 1 (1/10) 2 ''SV'' 1 1 = Inr (T, Q, P) \<and>
      length T = 3 \<and> T ! 2 = 1/5"
    by auto
  with first show ?thesis by simp
qed

subsection \<open>The initial condition\<close>

text \<open>
  Claim C8. For every valid input and every method, the first entry of each returned
  trajectory is the supplied initial condition, unchanged: \<open>dynamics_solve\<close> returns
  \<open>S\<close> with \<open>S[0] = s_0\<close>, and \<open>hamiltonian_solve\<close> returns \<open>Q\<close> and \<open>P\<close> with
  \<open>Q[0] = q_0\<close> and \<open>P[0] = p_0\<close>. (The method is arbitrary here, so the recognised
  ones are covered.)
\<close>

theorem initial_condition_kept:
  assumes "1 \<le> D" and "1 \<le> d"
  shows "(\<exists>T S. dynamics_solve f D t_0 s_0 h N method = Inr (T, S) \<and> S ! 0 = s_0) \<and>
         (\<exists>T Q P. hamiltonian_solve d_qH d_pH d t_0 q_0 p_0 h N method K m = Inr (T, Q, P) \<and>
            Q ! 0 = q_0 \<and> P ! 0 = p_0)"
  using dynamics_solve_frame [OF assms(1), of f t_0 s_0 h N "method"]
    hamiltonian_solve_frame [OF assms(2), of d_qH d_pH t_0 q_0 p_0 h N "method" K m]
  by blast

theorem initial_condition_kept_witness:
  "(1::int) \<le> 1 \<and>
   (\<exists>T S. dynamics_solve (\<lambda>t s. s) 1 0 (1::real) (1/10) 2 ''RK4'' = Inr (T, S) \<and> S ! 0 = 1) \<and>
   (\<exists>T Q P. hamiltonian_solve osc_d_qH osc_d_pH 1 0 0 1 (1/10) 2 ''RK4'' 1 1 = Inr (T, Q, P) \<and>
      Q ! 0 = 0 \<and> P ! 0 = 1)"
proof -
  have dims: "(1::int) \<le> 1" by simp
  show ?thesis
    using dims initial_condition_kept [OF dims dims, of "\<lambda>t s. s" 0 "1::real" "1/10" 2 "''RK4''"
      osc_d_qH osc_d_pH 0 1 1 1]
    by simp
qed


subsection \<open>No steps\<close>

text \<open>
  Claim C10. With \<open>N = 0\<close> (and a dimension of at least 1), for every method,
  derivative function and initial condition, \<open>dynamics_solve\<close> returns \<open>S\<close> of length 1
  holding exactly \<open>s_0\<close>, and \<open>hamiltonian_solve\<close> returns \<open>Q\<close> and \<open>P\<close> of length 1
  holding exactly \<open>q_0\<close> and \<open>p_0\<close>. The results name neither \<open>f\<close>, \<open>d_qH\<close>, \<open>d_pH\<close>
  nor the method: no derivative function is evaluated, and the trajectories do not depend
  on them.
\<close>

theorem zero_steps:
  assumes "1 \<le> D" and "1 \<le> d"
  shows "dynamics_solve f D t_0 s_0 h 0 method = Inr ([t_0], [s_0]) \<and>
         hamiltonian_solve d_qH d_pH d t_0 q_0 p_0 h 0 method K m = Inr ([t_0], [q_0], [p_0])"
  using assms
  by (simp add: dynamics_solve_def hamiltonian_solve_def zeros_buffer_valid time_grid_def Let_def)

theorem zero_steps_witness:
  "(1::int) \<le> 1 \<and>
   dynamics_solve (\<lambda>t s. s) 1 0 (1::real) (1/10) 0 ''RK4'' = Inr ([0], [1]) \<and>
   hamiltonian_solve osc_d_qH osc_d_pH 1 0 0 1 (1/10) 0 ''SV'' 1 1 = Inr ([0], [0], [1])"
proof -
  have dims: "(1::int) \<le> 1" by simp
  have "dynamics_solve (\<lambda>t s. s) 1 0 (1::real) (1/10) 0 ''RK4'' = Inr ([0], [1])"
    using zero_steps [OF dims dims, of "\<lambda>t s. s" 0 "1::real" "1/10" "''RK4''"
        osc_d_qH osc_d_pH 0 1 1 1]
    by simp
  moreover have "hamiltonian_solve osc_d_qH osc_d_pH 1 0 0 1 (1/10) 0 ''SV'' 1 1 = Inr ([0], [0], [1])"
    using zero_steps [OF dims dims, of "\<lambda>t s. s" 0 "1::real" "1/10" "''SV''"
        osc_d_qH osc_d_pH 0 1 1 1]
    by simp
  ultimately show ?thesis
    using dims by simp
qed

subsection \<open>An unrecognised method\<close>

text \<open>
  Claim C5. For a method string outside the recognised set (\<open>Euler\<close>, \<open>RK2\<close>, \<open>RK4\<close> for
  \<open>dynamics_solve\<close>; these and \<open>SE\<close>, \<open>SV\<close> for \<open>hamiltonian_solve\<close>), any \<open>N\<close> and a
  dimension of at least 1, the call does not fail: it returns the full time grid and
  trajectories whose entry 0 is the initial state and whose entries 1 to \<open>N\<close> are exactly
  zero. The result does not mention the derivative functions: they are never evaluated.
\<close>

theorem unrecognised_method_zeros:
  assumes "1 \<le> D" and "1 \<le> d"
  shows "(method \<notin> {''Euler'', ''RK2'', ''RK4''} \<longrightarrow>
            dynamics_solve f D t_0 s_0 h N method =
              Inr (time_grid t_0 h N, s_0 # replicate N 0)) \<and>
         (method \<notin> {''Euler'', ''RK2'', ''RK4'', ''SE'', ''SV''} \<longrightarrow>
            hamiltonian_solve d_qH d_pH d t_0 q_0 p_0 h N method K m =
              Inr (time_grid t_0 h N, q_0 # replicate N 0, p_0 # replicate N 0))"
  using assms
  by (simp add: dynamics_solve_def hamiltonian_solve_def zeros_buffer_valid Let_def)

theorem unrecognised_method_zeros_witness:
  "(1::int) \<le> 1 \<and> ''bogus'' \<notin> {''Euler'', ''RK2'', ''RK4'', ''SE'', ''SV''} \<and>
   ''SE'' \<notin> {''Euler'', ''RK2'', ''RK4''} \<and>
   dynamics_solve (\<lambda>t s. s) 1 0 (1::real) (1/10) 3 ''SE'' =
     Inr ([0, 1/10, 1/5, 3/10], [1, 0, 0, 0]) \<and>
   hamiltonian_solve osc_d_qH osc_d_pH 1 0 0 1 (1/10) 3 ''bogus'' 1 1 =
     Inr ([0, 1/10, 1/5, 3/10], [0, 0, 0, 0], [1, 0, 0, 0])"
proof -
  have dims: "(1::int) \<le> 1" by simp
  have grid: "time_grid 0 (1/10) 3 = [0, 1/10, 1/5, 3/10]"
    by (simp add: time_grid_def upt_rec)
  have zeros: "replicate 3 (0::real) = [0, 0, 0]"
    by (simp add: numeral_3_eq_3)
  have "dynamics_solve (\<lambda>t s. s) 1 0 (1::real) (1/10) 3 ''SE'' =
     Inr ([0, 1/10, 1/5, 3/10], [1, 0, 0, 0])"
    using unrecognised_method_zeros [OF dims dims, of "''SE''" "\<lambda>t s. s" 0 "1::real" "1/10" 3
        osc_d_qH osc_d_pH 0 1 1 1] grid zeros
    by simp
  moreover have "hamiltonian_solve osc_d_qH osc_d_pH 1 0 0 1 (1/10) 3 ''bogus'' 1 1 =
     Inr ([0, 1/10, 1/5, 3/10], [0, 0, 0, 0], [1, 0, 0, 0])"
    using unrecognised_method_zeros [OF dims dims, of "''bogus''" "\<lambda>t s. s" 0 "1::real" "1/10" 3
        osc_d_qH osc_d_pH 0 1 1 1] grid zeros
    by simp
  ultimately show ?thesis by simp
qed

subsection \<open>The unused parameters\<close>

text \<open>
  Claim C6. With everything else fixed, \<open>hamiltonian_solve\<close> returns the same
  \<open>(T, Q, P)\<close> (or fails alike) for any two values of \<open>K\<close> and any two values of \<open>m\<close>:
  no scheme reads either parameter.
\<close>

theorem K_and_m_unused:
  "hamiltonian_solve d_qH d_pH d t_0 q_0 p_0 h N method K1 m1 =
   hamiltonian_solve d_qH d_pH d t_0 q_0 p_0 h N method K2 m2"
  by (simp add: hamiltonian_solve_def)

subsection \<open>The linear test\<close>

text \<open>
  Claim C9. For \<open>f(t, s) = s\<close>, \<open>D = 1\<close>, \<open>s_0 = 1\<close>, \<open>h = 1/10\<close>, \<open>N = 10\<close> and method
  \<open>Euler\<close> (with \<open>t_0 = 0\<close>, which \<open>f\<close> ignores), \<open>dynamics_solve\<close> returns \<open>S\<close> with
  \<open>S[10] = (11/10)\<^sup>1\<^sup>0\<close>, in exact arithmetic.
\<close>

theorem euler_linear_test:
  "\<exists>T S. dynamics_solve (\<lambda>t s. s) 1 0 (1::real) (1/10) 10 ''Euler'' = Inr (T, S) \<and>
     S ! 10 = (11/10) ^ 10"
  by (simp add: dynamics_solve_def zeros_buffer_def time_grid_def euler_body_def
      upt_rec numeral_eq_Suc)


subsection \<open>The symplectic schemes\<close>

text \<open>
  A loop over \<open>range(k)\<close> whose body writes \<open>Q[n+1]\<close> and \<open>P[n+1]\<close> from \<open>Q[n]\<close> and
  \<open>P[n]\<close> leaves buffers in which every entry up to \<open>k\<close> follows from the one before,
  and the entries beyond \<open>k\<close> are untouched.
\<close>

lemma pair_loop:
  fixes body :: "nat \<Rightarrow> 'a list \<times> 'a list \<Rightarrow> 'a list \<times> 'a list"
  assumes step: "\<And>n Q P. Suc n < length Q \<Longrightarrow> Suc n < length P \<Longrightarrow>
     body n (Q, P) = (Q[Suc n := A n (Q ! n) (P ! n)], P[Suc n := B n (Q ! n) (P ! n)])"
  shows "k < length Q0 \<Longrightarrow> k < length P0 \<Longrightarrow>
     (\<exists>Q P. fold body [0..<k] (Q0, P0) = (Q, P) \<and>
     length Q = length Q0 \<and> length P = length P0 \<and>
     (\<forall>n<k. Q ! Suc n = A n (Q ! n) (P ! n) \<and> P ! Suc n = B n (Q ! n) (P ! n)) \<and>
     Q ! 0 = Q0 ! 0 \<and> P ! 0 = P0 ! 0 \<and>
     (\<forall>i. k < i \<longrightarrow> Q ! i = Q0 ! i \<and> P ! i = P0 ! i))"
proof (induction k)
  case 0
  then show ?case by simp
next
  case (Suc k)
  then obtain Q P where run: "fold body [0..<k] (Q0, P0) = (Q, P)"
    and IH: "length Q = length Q0" "length P = length P0"
      "\<forall>n<k. Q ! Suc n = A n (Q ! n) (P ! n) \<and> P ! Suc n = B n (Q ! n) (P ! n)"
      "Q ! 0 = Q0 ! 0" "P ! 0 = P0 ! 0" "\<forall>i. k < i \<longrightarrow> Q ! i = Q0 ! i \<and> P ! i = P0 ! i"
    by auto
  let ?Q = "Q[Suc k := A k (Q ! k) (P ! k)]"
  let ?P = "P[Suc k := B k (Q ! k) (P ! k)]"
  from Suc.prems IH(1,2) have in_range: "Suc k < length Q" "Suc k < length P" by simp_all
  have unfold: "fold body [0..<Suc k] (Q0, P0) = (?Q, ?P)"
    using step [OF in_range] run by simp
  have later: "\<forall>n<Suc k. ?Q ! Suc n = A n (?Q ! n) (?P ! n) \<and> ?P ! Suc n = B n (?Q ! n) (?P ! n)"
  proof (intro allI impI)
    fix n assume "n < Suc k"
    then consider "n = k" | "n < k" by linarith
    then show "?Q ! Suc n = A n (?Q ! n) (?P ! n) \<and> ?P ! Suc n = B n (?Q ! n) (?P ! n)"
    proof cases
      case 1
      then show ?thesis using in_range by simp
    next
      case 2
      then show ?thesis using IH(3) by simp
    qed
  qed
  show ?case
    unfolding unfold using IH later by simp
qed

lemma h_se_body_step:
  assumes "Suc n < length Q"
  shows "h_se_body d_qH d_pH h T n (Q, P) =
     (Q[Suc n := Q ! n + h *\<^sub>R d_pH (Args3 (Q ! n) (P ! n) (T ! n))],
      P[Suc n := P ! n - h *\<^sub>R d_qH (Args3 (Q ! n + h *\<^sub>R d_pH (Args3 (Q ! n) (P ! n) (T ! n)))
                                      (P ! n) (T ! n))])"
  using assms by (simp add: h_se_body_def Let_def)

lemma h_sv_body_step:
  assumes "Suc n < length Q"
  shows "h_sv_body d_qH d_pH h T n (Q, P) =
     (Q[Suc n := Q ! n + h *\<^sub>R d_pH (Args3 (Q ! n)
                    (P ! n - (h / 2) *\<^sub>R d_qH (Args3 (Q ! n) (P ! n) (T ! n))) (T ! n))],
      P[Suc n := P ! n - (h / 2) *\<^sub>R d_qH (Args3 (Q ! n) (P ! n) (T ! n))
         - (h / 2) *\<^sub>R d_qH (Args3 (Q ! n + h *\<^sub>R d_pH (Args3 (Q ! n)
                    (P ! n - (h / 2) *\<^sub>R d_qH (Args3 (Q ! n) (P ! n) (T ! n))) (T ! n)))
              (P ! n) (T ! n))])"
  using assms by (simp add: h_sv_body_def Let_def)

lemma hamiltonian_solve_SE:
  assumes "1 \<le> d"
  shows "hamiltonian_solve d_qH d_pH d t_0 q_0 p_0 h N ''SE'' K m =
     Inr (time_grid t_0 h N,
          fold (h_se_body d_qH d_pH h (time_grid t_0 h N)) [0..<N]
            ((replicate (N + 1) 0)[0 := q_0], (replicate (N + 1) 0)[0 := p_0]))"
  using assms by (simp add: hamiltonian_solve_def zeros_buffer_valid Let_def split: prod.splits)

lemma hamiltonian_solve_SV:
  assumes "1 \<le> d"
  shows "hamiltonian_solve d_qH d_pH d t_0 q_0 p_0 h N ''SV'' K m =
     Inr (time_grid t_0 h N,
          fold (h_sv_body d_qH d_pH h (time_grid t_0 h N)) [0..<N]
            ((replicate (N + 1) 0)[0 := q_0], (replicate (N + 1) 0)[0 := p_0]))"
  using assms by (simp add: hamiltonian_solve_def zeros_buffer_valid Let_def split: prod.splits)

text \<open>
  Claim C1. For every \<open>d \<ge> 1\<close>, initial pair, step size \<open>h\<close> and \<open>N\<close>,
  \<open>hamiltonian_solve\<close> with method \<open>SV\<close> returns, and for every \<open>n\<close> below \<open>N\<close> its
  result satisfies: with the half-step momentum
  \<open>k1 = P[n] - (h/2) d_qH(Q[n], P[n], T[n])\<close>,
  \<open>Q[n+1] = Q[n] + h d_pH(Q[n], k1, T[n])\<close> and
  \<open>P[n+1] = k1 - (h/2) d_qH(Q[n+1], P[n], T[n])\<close>: the last update passes the old
  momentum \<open>P[n]\<close>, not \<open>k1\<close>, and the position \<open>Q[n+1]\<close> already updated.
\<close>

theorem stormer_verlet_step:
  assumes "1 \<le> d"
  shows "\<exists>T Q P. hamiltonian_solve d_qH d_pH d t_0 q_0 p_0 h N ''SV'' K m = Inr (T, Q, P) \<and>
     length T = N + 1 \<and> length Q = N + 1 \<and> length P = N + 1 \<and>
     (\<forall>n<N. let k1 = P ! n - (h / 2) *\<^sub>R d_qH (Args3 (Q ! n) (P ! n) (T ! n))
             in Q ! (n + 1) = Q ! n + h *\<^sub>R d_pH (Args3 (Q ! n) k1 (T ! n)) \<and>
                P ! (n + 1) = k1 - (h / 2) *\<^sub>R d_qH (Args3 (Q ! (n + 1)) (P ! n) (T ! n)))"
proof -
  let ?T = "time_grid t_0 h N"
  let ?Q0 = "(replicate (N + 1) (0::'a))[0 := q_0]"
  let ?P0 = "(replicate (N + 1) (0::'a))[0 := p_0]"
  have "N < length ?Q0" "N < length ?P0" by simp_all
  from pair_loop [of "h_sv_body d_qH d_pH h ?T", OF h_sv_body_step this]
  obtain Q P where run: "fold (h_sv_body d_qH d_pH h ?T) [0..<N] (?Q0, ?P0) = (Q, P)"
    and len: "length Q = N + 1" "length P = N + 1"
    and later: "\<forall>n<N.
        Q ! Suc n = Q ! n + h *\<^sub>R d_pH (Args3 (Q ! n)
                    (P ! n - (h / 2) *\<^sub>R d_qH (Args3 (Q ! n) (P ! n) (?T ! n))) (?T ! n)) \<and>
        P ! Suc n = P ! n - (h / 2) *\<^sub>R d_qH (Args3 (Q ! n) (P ! n) (?T ! n))
         - (h / 2) *\<^sub>R d_qH (Args3 (Q ! n + h *\<^sub>R d_pH (Args3 (Q ! n)
                    (P ! n - (h / 2) *\<^sub>R d_qH (Args3 (Q ! n) (P ! n) (?T ! n))) (?T ! n)))
              (P ! n) (?T ! n))"
    by auto
  have "hamiltonian_solve d_qH d_pH d t_0 q_0 p_0 h N ''SV'' K m = Inr (?T, Q, P)"
    using hamiltonian_solve_SV [OF assms, of d_qH d_pH t_0 q_0 p_0 h N K m] run by simp
  moreover have "\<forall>n<N. let k1 = P ! n - (h / 2) *\<^sub>R d_qH (Args3 (Q ! n) (P ! n) (?T ! n))
             in Q ! (n + 1) = Q ! n + h *\<^sub>R d_pH (Args3 (Q ! n) k1 (?T ! n)) \<and>
                P ! (n + 1) = k1 - (h / 2) *\<^sub>R d_qH (Args3 (Q ! (n + 1)) (P ! n) (?T ! n))"
    using later by (simp add: Let_def)
  ultimately show ?thesis
    using len length_time_grid by blast
qed

theorem stormer_verlet_step_witness:
  "(1::int) \<le> 1 \<and> (1::nat) < 2 \<and>
   (\<exists>T Q P. hamiltonian_solve osc_d_qH osc_d_pH 1 0 0 1 1 2 ''SV'' 1 1 = Inr (T, Q, P) \<and>
      length Q = 3 \<and> length P = 3 \<and>
      (let k1 = P ! 1 - (1 / 2) *\<^sub>R osc_d_qH (Args3 (Q ! 1) (P ! 1) (T ! 1))
       in Q ! 2 = Q ! 1 + 1 *\<^sub>R osc_d_pH (Args3 (Q ! 1) k1 (T ! 1)) \<and>
          P ! 2 = k1 - (1 / 2) *\<^sub>R osc_d_qH (Args3 (Q ! 2) (P ! 1) (T ! 1))))"
proof -
  have dims: "(1::int) \<le> 1" by simp
  have second: "(1::nat) < 2" by simp
  from stormer_verlet_step [OF dims, of osc_d_qH osc_d_pH 0 0 1 1 2 1 1]
  obtain T Q P where run: "hamiltonian_solve osc_d_qH osc_d_pH 1 0 0 1 1 2 ''SV'' 1 1 = Inr (T, Q, P)"
    and len: "length Q = 2 + 1" "length P = 2 + 1"
    and later: "\<forall>n<2. let k1 = P ! n - (1 / 2) *\<^sub>R osc_d_qH (Args3 (Q ! n) (P ! n) (T ! n))
             in Q ! (n + 1) = Q ! n + 1 *\<^sub>R osc_d_pH (Args3 (Q ! n) k1 (T ! n)) \<and>
                P ! (n + 1) = k1 - (1 / 2) *\<^sub>R osc_d_qH (Args3 (Q ! (n + 1)) (P ! n) (T ! n))"
    by blast
  have "let k1 = P ! 1 - (1 / 2) *\<^sub>R osc_d_qH (Args3 (Q ! 1) (P ! 1) (T ! 1))
       in Q ! 2 = Q ! 1 + 1 *\<^sub>R osc_d_pH (Args3 (Q ! 1) k1 (T ! 1)) \<and>
          P ! 2 = k1 - (1 / 2) *\<^sub>R osc_d_qH (Args3 (Q ! 2) (P ! 1) (T ! 1))"
    using later [rule_format, OF second] by (simp add: numeral_2_eq_2)
  with run len show ?thesis by simp
qed


text \<open>
  Claim C4. For every \<open>d \<ge> 1\<close>, \<open>t_0\<close>, \<open>q_0\<close>, \<open>p_0\<close>, \<open>h\<close> and \<open>N\<close>,
  \<open>hamiltonian_solve\<close> with method \<open>SE\<close> returns, and for every \<open>n\<close> below \<open>N\<close> its
  result satisfies \<open>Q[n+1] = Q[n] + h d_pH(Q[n], P[n], T[n])\<close> and then
  \<open>P[n+1] = P[n] - h d_qH(Q[n+1], P[n], T[n])\<close>: the momentum update reads the
  position \<open>Q[n+1]\<close> already updated, not \<open>Q[n]\<close>.
\<close>

theorem symplectic_euler_step:
  assumes "1 \<le> d"
  shows "\<exists>T Q P. hamiltonian_solve d_qH d_pH d t_0 q_0 p_0 h N ''SE'' K m = Inr (T, Q, P) \<and>
     length T = N + 1 \<and> length Q = N + 1 \<and> length P = N + 1 \<and>
     (\<forall>n<N. Q ! (n + 1) = Q ! n + h *\<^sub>R d_pH (Args3 (Q ! n) (P ! n) (T ! n)) \<and>
             P ! (n + 1) = P ! n - h *\<^sub>R d_qH (Args3 (Q ! (n + 1)) (P ! n) (T ! n)))"
proof -
  let ?T = "time_grid t_0 h N"
  let ?Q0 = "(replicate (N + 1) (0::'a))[0 := q_0]"
  let ?P0 = "(replicate (N + 1) (0::'a))[0 := p_0]"
  have "N < length ?Q0" "N < length ?P0" by simp_all
  from pair_loop [of "h_se_body d_qH d_pH h ?T", OF h_se_body_step this]
  obtain Q P where run: "fold (h_se_body d_qH d_pH h ?T) [0..<N] (?Q0, ?P0) = (Q, P)"
    and len: "length Q = N + 1" "length P = N + 1"
    and later: "\<forall>n<N.
        Q ! Suc n = Q ! n + h *\<^sub>R d_pH (Args3 (Q ! n) (P ! n) (?T ! n)) \<and>
        P ! Suc n = P ! n - h *\<^sub>R d_qH (Args3 (Q ! n + h *\<^sub>R d_pH (Args3 (Q ! n) (P ! n) (?T ! n)))
                                      (P ! n) (?T ! n))"
    by auto
  have "hamiltonian_solve d_qH d_pH d t_0 q_0 p_0 h N ''SE'' K m = Inr (?T, Q, P)"
    using hamiltonian_solve_SE [OF assms, of d_qH d_pH t_0 q_0 p_0 h N K m] run by simp
  moreover have "\<forall>n<N. Q ! (n + 1) = Q ! n + h *\<^sub>R d_pH (Args3 (Q ! n) (P ! n) (?T ! n)) \<and>
             P ! (n + 1) = P ! n - h *\<^sub>R d_qH (Args3 (Q ! (n + 1)) (P ! n) (?T ! n))"
    using later by simp
  ultimately show ?thesis
    using len length_time_grid by blast
qed

theorem symplectic_euler_step_witness:
  "(1::int) \<le> 1 \<and> (1::nat) < 2 \<and>
   (\<exists>T Q P. hamiltonian_solve osc_d_qH osc_d_pH 1 0 0 1 1 2 ''SE'' 1 1 = Inr (T, Q, P) \<and>
      length Q = 3 \<and> length P = 3 \<and>
      Q ! 2 = Q ! 1 + 1 *\<^sub>R osc_d_pH (Args3 (Q ! 1) (P ! 1) (T ! 1)) \<and>
      P ! 2 = P ! 1 - 1 *\<^sub>R osc_d_qH (Args3 (Q ! 2) (P ! 1) (T ! 1)))"
proof -
  have dims: "(1::int) \<le> 1" by simp
  have second: "(1::nat) < 2" by simp
  from symplectic_euler_step [OF dims, of osc_d_qH osc_d_pH 0 0 1 1 2 1 1]
  obtain T Q P where run: "hamiltonian_solve osc_d_qH osc_d_pH 1 0 0 1 1 2 ''SE'' 1 1 = Inr (T, Q, P)"
    and len: "length Q = 2 + 1" "length P = 2 + 1"
    and later: "\<forall>n<2. Q ! (n + 1) = Q ! n + 1 *\<^sub>R osc_d_pH (Args3 (Q ! n) (P ! n) (T ! n)) \<and>
             P ! (n + 1) = P ! n - 1 *\<^sub>R osc_d_qH (Args3 (Q ! (n + 1)) (P ! n) (T ! n))"
    by blast
  have "Q ! 2 = Q ! 1 + 1 *\<^sub>R osc_d_pH (Args3 (Q ! 1) (P ! 1) (T ! 1)) \<and>
      P ! 2 = P ! 1 - 1 *\<^sub>R osc_d_qH (Args3 (Q ! 2) (P ! 1) (T ! 1))"
    using later [rule_format, OF second] by (simp add: numeral_2_eq_2)
  with run len show ?thesis by simp
qed

subsection \<open>The fourth stage of RK4 in \<open>dynamics_solve\<close>\<close>

text \<open>
  Claim C3 states that \<open>dynamics_solve\<close> with method \<open>RK4\<close> takes the classical step, whose
  fourth stage evaluates \<open>f\<close> at time \<open>T[n] + h\<close>. The code evaluates it at \<open>T[n]\<close>.
  For \<open>f(t, s) = t\<close>, \<open>D = 1\<close>, \<open>t_0 = 0\<close>, \<open>s_0 = 0\<close>, \<open>h = 1\<close>, \<open>N = 1\<close> the code
  returns \<open>S[1] = 1/3\<close>, where the stated step gives \<open>1/2\<close>.
\<close>

theorem rk4_fourth_stage_time:
  "dynamics_solve (\<lambda>t s. t) 1 0 (0::real) 1 1 ''RK4'' = Inr ([0, 1], [0, 1/3]) \<and>
   rk4_stated_step (\<lambda>t s. t) 1 0 (0::real) = 1/2"
  by (simp add: dynamics_solve_def zeros_buffer_def time_grid_def rk4_body_def
      rk4_stated_step_def Let_def)

subsection \<open>Euler, RK2 and RK4 in \<open>hamiltonian_solve\<close>\<close>

text \<open>
  For Euler the two agree: line 102 reads \<open>Q[n]\<close> and \<open>P[n]\<close>, the point line 101 used,
  and zipping \<open>Q\<close> with \<open>P\<close> gives the trajectory of the coupled pair.
\<close>

lemma euler_body_zip:
  assumes "Suc n < length Q" and "length P = length Q"
  shows "euler_body (coupled_field d_qH d_pH) h T n (zip Q P) =
     zip (fst (h_euler_body d_qH d_pH h n (Q, P))) (snd (h_euler_body d_qH d_pH h n (Q, P)))"
  using assms
  by (simp add: euler_body_def h_euler_body_def coupled_field_def Let_def update_zip
      scaleR_prod_def plus_prod_def)

lemma fold_euler_zip:
  assumes "length P = length Q"
  shows "k < length Q \<Longrightarrow>
     fold (euler_body (coupled_field d_qH d_pH) h T) [0..<k] (zip Q P) =
       zip (fst (fold (h_euler_body d_qH d_pH h) [0..<k] (Q, P)))
           (snd (fold (h_euler_body d_qH d_pH h) [0..<k] (Q, P)))"
proof (induction k)
  case 0
  show ?case by simp
next
  case (Suc k)
  define QP where "QP = fold (h_euler_body d_qH d_pH h) [0..<k] (Q, P)"
  have "same_frame (Q, P) QP"
    unfolding QP_def by (rule fold_same_frame) (rule h_euler_body_frame)
  then have len: "length (fst QP) = length Q" "length (snd QP) = length Q"
    using assms by (simp_all add: same_frame_def)
  from Suc have "fold (euler_body (coupled_field d_qH d_pH) h T) [0..<k] (zip Q P) =
      zip (fst QP) (snd QP)"
    by (simp add: QP_def)
  then have "fold (euler_body (coupled_field d_qH d_pH) h T) [0..<Suc k] (zip Q P) =
      euler_body (coupled_field d_qH d_pH) h T k (zip (fst QP) (snd QP))"
    by simp
  also have "\<dots> = zip (fst (h_euler_body d_qH d_pH h k (fst QP, snd QP)))
      (snd (h_euler_body d_qH d_pH h k (fst QP, snd QP)))"
    using Suc.prems len by (intro euler_body_zip) simp_all
  finally show ?case
    by (simp add: QP_def)
qed

lemma hamiltonian_euler_is_coupled:
  assumes "1 \<le> d"
  shows "hamiltonian_solve d_qH d_pH d t_0 q_0 p_0 h N ''Euler'' K m =
         coupled_solve d_qH d_pH d t_0 q_0 p_0 h N ''Euler''"
proof -
  let ?Q0 = "(replicate (N + 1) (0::'a))[0 := q_0]"
  let ?P0 = "(replicate (N + 1) (0::'a))[0 := p_0]"
  define QP where "QP = fold (h_euler_body d_qH d_pH h) [0..<N] (?Q0, ?P0)"
  have "same_frame (?Q0, ?P0) QP"
    unfolding QP_def by (rule fold_same_frame) (rule h_euler_body_frame)
  then have len: "length (fst QP) = length (snd QP)"
    by (simp add: same_frame_def)
  have start: "(replicate (N + 1) (0::'a \<times> 'a))[0 := (q_0, p_0)] = zip ?Q0 ?P0"
    by (simp add: zero_prod_def)
  have run: "fold (euler_body (coupled_field d_qH d_pH) h (time_grid t_0 h N)) [0..<N]
        ((replicate (N + 1) 0)[0 := (q_0, p_0)]) = zip (fst QP) (snd QP)"
    unfolding start QP_def by (rule fold_euler_zip) simp_all
  have dyn: "dynamics_solve (coupled_field d_qH d_pH) d t_0 (q_0, p_0) h N ''Euler'' =
      Inr (time_grid t_0 h N,
           fold (euler_body (coupled_field d_qH d_pH) h (time_grid t_0 h N)) [0..<N]
             ((replicate (N + 1) 0)[0 := (q_0, p_0)]))"
    using assms by (simp add: dynamics_solve_def zeros_buffer_valid Let_def)
  have "coupled_solve d_qH d_pH d t_0 q_0 p_0 h N ''Euler'' =
      Inr (time_grid t_0 h N, fst QP, snd QP)"
    unfolding coupled_solve_def dyn run using len by simp
  moreover have "hamiltonian_solve d_qH d_pH d t_0 q_0 p_0 h N ''Euler'' K m =
      Inr (time_grid t_0 h N, fst QP, snd QP)"
    using assms
    by (simp add: hamiltonian_solve_def zeros_buffer_valid Let_def QP_def case_prod_beta)
  ultimately show ?thesis by simp
qed

text \<open>
  Claim C2 states that Euler, RK2 and RK4 of \<open>hamiltonian_solve\<close> are the schemes of
  \<open>dynamics_solve\<close> on the coupled pair, both derivative functions being evaluated at the
  same intermediate point in every stage. In the code the second stage of RK2 (and the
  later stages of RK4) calls \<open>d_pH\<close> at \<open>(Q[n] + k1_Q/2, P[n] + k1_Q/2)\<close> and \<open>d_qH\<close> at
  \<open>(Q[n] + k1_P/2, P[n] + k1_P/2)\<close>, two different points, neither of them the point
  \<open>(Q[n] + k1_Q/2, P[n] + k1_P/2)\<close> of the scheme; the fourth stage of RK4 offsets the
  position by \<open>h\<close>. For the oscillator with \<open>d = 1\<close>, \<open>t_0 = 0\<close>, \<open>q_0 = 0\<close>, \<open>p_0 = 1\<close>,
  \<open>h = 1\<close>, \<open>N = 1\<close> the results differ from those of the coupled schemes.
\<close>

theorem hamiltonian_rk_stage_points:
  "hamiltonian_solve osc_d_qH osc_d_pH 1 0 0 1 1 1 ''RK2'' 1 1 = Inr ([0, 1], [0, 3/2], [1, 1]) \<and>
   coupled_solve osc_d_qH osc_d_pH 1 0 0 1 1 1 ''RK2'' = Inr ([0, 1], [0, 1], [1, 1/2]) \<and>
   hamiltonian_solve osc_d_qH osc_d_pH 1 0 0 1 1 1 ''RK4'' 1 1 = Inr ([0, 1], [0, 41/24], [1, 5/6]) \<and>
   coupled_solve osc_d_qH osc_d_pH 1 0 0 1 1 1 ''RK4'' = Inr ([0, 1], [0, 5/6], [1, 13/24])"
  by (simp add: hamiltonian_solve_def coupled_solve_def coupled_field_def dynamics_solve_def
      zeros_buffer_def time_grid_def h_rk2_body_def h_rk4_body_def rk2_body_def rk4_body_def
      osc_d_qH_def osc_d_pH_def scaleR_prod_def plus_prod_def zero_prod_def Let_def)

end
